theory Spec2Isabelle
  imports Complex_Main
begin

section \<open>The N-tree of gcode\_to\_voxel/NTree.py\<close>

text \<open>
  A shallow embedding of the classes \<open>Ntree\<close> and \<open>Node\<close> of
  \<^verbatim>\<open>src/gcode_to_voxel/NTree.py\<close>. The module targets Python 2 (its first line
  names the interpreter) and numpy.

  Conventions of the embedding:
  \<^item> A float given by the caller (a bound, a resolution, a coordinate, an attribute)
    is a finite number, a \<open>real\<close>. A float computed by the constructor is a double
    with its infinities and NaN (\<open>npfloat\<close>), and the arithmetic that computes it is
    a parameter of the model (\<open>float_ops\<close>).
  \<^item> A float array of shape \<open>(D, 2)\<close> is a list of pairs \<open>(start, end)\<close>; for
    \<open>D = 0\<close> it is the empty list.
  \<^item> An attribute vector is a Python list of floats, a \<open>real list\<close>.
  \<^item> A method that mutates \<open>self\<close> returns the object after the call beside its
    result, also when it raises: \<open>(error + 'a) \<times> state\<close>. A method that raises
    before any assignment returns the object it received.
  \<^item> An exception is a value \<open>Inl e\<close>. Looking up an attribute or method that the
    class does not define is \<open>AttributeError\<close>, an unbound global name is
    \<open>NameError\<close>.
  \<^item> Output written by \<open>print\<close> is not modelled.
  \<^item> A method \<open>_m\<close> of class \<open>C\<close> is the constant \<open>C__m\<close>; the special methods
    \<open>__init__\<close>, \<open>__getitem__\<close>, \<open>__setitem__\<close> and \<open>__delitem__\<close> are
    \<open>C_init\<close>, \<open>C_getitem\<close>, \<open>C_setitem\<close> and \<open>C_delitem\<close>.
\<close>

datatype error = TypeError | AttributeError | NameError | AssertionError | ValueError
  | OverflowError | IndexError

type_synonym ranges_array = "(real \<times> real) list"

subsection \<open>Node\<close>

text \<open>
  The fields assigned by \<open>Node.__init__\<close>, in its order. \<open>nodes\<close> is \<open>None\<close> for a
  leaf and otherwise the flattened array of children.
\<close>

datatype Node = Node (dims: nat) (centers: "real list") (ranges: ranges_array)
  (attrs: "real list") (level: int) (max_level: int) (nodes: "Node list option")

text \<open>
  \<open>Node.__init__(ranges, attrs, level, max_level)\<close>. \<open>dims\<close> is
  \<open>len(ranges.shape)\<close>: 2 for an array of shape \<open>(D, 2)\<close> and 1 for the empty array of
  shape \<open>(0,)\<close>. \<open>centers\<close> is the mean of each row; for the empty array numpy gives
  a NaN scalar, which the model leaves as the empty list (no method reads the field).
\<close>

definition Node_init :: "ranges_array \<Rightarrow> real list \<Rightarrow> int \<Rightarrow> int \<Rightarrow> Node" where
  "Node_init rs a lv mx =
     Node (if rs = [] then 1 else 2) (map (\<lambda>(lo, hi). (lo + hi) / 2) rs) rs a lv mx None"

fun set_attrs :: "Node \<Rightarrow> real list \<Rightarrow> Node" where
  "set_attrs (Node d c r a l m ns) v = Node d c r v l m ns"

text \<open>
  \<open>Node.__getitem__(coords)\<close>. On a node with children it calls \<open>self._read_nodes\<close>,
  which class \<open>Node\<close> does not define. On a leaf it reads \<open>s.stop\<close>, \<open>s.start\<close>
  and \<open>s.step\<close> of every row \<open>s\<close> of \<open>coords\<close>; a row of a float array has no such
  attribute, so the first row raises. With no row, \<open>out_shape\<close> is empty and
  \<open>np.tile(self.attrs, [])\<close> is the attribute vector itself.
\<close>

definition Node_getitem :: "Node \<Rightarrow> ranges_array \<Rightarrow> error + real list" where
  "Node_getitem self coords =
     (case nodes self of
        Some _ \<Rightarrow> Inl AttributeError
      | None \<Rightarrow> (case coords of [] \<Rightarrow> Inr (attrs self) | s # _ \<Rightarrow> Inl AttributeError))"

text \<open>
  \<open>Node._merge()\<close>. \<open>merge_children\<close> is \<open>all(n._merge() for n in self.nodes.flatten())\<close>:
  the argument of \<open>all\<close> is a generator, so the children are merged in order and the
  iteration stops at the first child whose \<open>_merge\<close> returns \<open>False\<close>; the children
  after it are not visited. \<open>self.nodes.flatten()[0]\<close> on an array with no element is
  \<open>IndexError\<close>.
\<close>

fun Node__merge :: "Node \<Rightarrow> (error + bool) \<times> Node"
  and merge_children :: "Node list \<Rightarrow> (error + bool) \<times> Node list" where
  "Node__merge (Node d c r a l m None) = (Inr True, Node d c r a l m None)"
| "Node__merge (Node d c r a l m (Some ns)) =
     (case merge_children ns of
        (Inl e, ns') \<Rightarrow> (Inl e, Node d c r a l m (Some ns'))
      | (Inr False, ns') \<Rightarrow> (Inr False, Node d c r a l m (Some ns'))
      | (Inr True, ns') \<Rightarrow>
          (case ns' of
             [] \<Rightarrow> (Inl IndexError, Node d c r a l m (Some ns'))
           | n0 # _ \<Rightarrow>
               if list_all (\<lambda>n. attrs n0 = attrs n) ns'
               then (Inr True, Node d c r (attrs n0) l m None)
               else (Inr False, Node d c r a l m (Some ns'))))"
| "merge_children [] = (Inr True, [])"
| "merge_children (n # ns) =
     (case Node__merge n of
        (Inl e, n') \<Rightarrow> (Inl e, n' # ns)
      | (Inr False, n') \<Rightarrow> (Inr False, n' # ns)
      | (Inr True, n') \<Rightarrow>
          (case merge_children ns of (res, ns') \<Rightarrow> (res, n' # ns')))"

text \<open>
  The helpers of the write path. Class \<open>Node\<close> defines no method \<open>_contained_by\<close>
  and no method \<open>divided_ranges\<close>; the body of \<open>_divide_ranges\<close> is the single
  statement \<open>return divided_ranges\<close>, an unbound name.
\<close>

definition Node__contained_by :: "Node \<Rightarrow> ranges_array \<Rightarrow> error + bool" where
  "Node__contained_by self coords = Inl AttributeError"

definition Node__divide_ranges :: "Node \<Rightarrow> ranges_array \<Rightarrow> error + ranges_array list" where
  "Node__divide_ranges self rs = Inl NameError"

definition Node_divided_ranges :: "Node \<Rightarrow> ranges_array \<Rightarrow> error + ranges_array list" where
  "Node_divided_ranges self coords = Inl AttributeError"

text \<open>
  \<open>Node._split()\<close> calls \<open>_divide_ranges\<close> first. Were that call to return, the loop
  would construct each child by \<open>Node(attrs=..., level=..., max_level=...)\<close>, without
  the required argument \<open>ranges\<close>: \<open>TypeError\<close> at the first child. No call of
  \<open>_split\<close> gets that far.
\<close>

definition Node__split :: "Node \<Rightarrow> (error + unit) \<times> Node" where
  "Node__split self =
     (case Node__divide_ranges self (ranges self) of
        Inl e \<Rightarrow> (Inl e, self)
      | Inr nodes_ranges \<Rightarrow> (Inl TypeError, self))"

text \<open>
  \<open>Node._set_nodes(coords, value)\<close> calls \<open>self.divided_ranges(coords)\<close> before its
  loop over the children. The lookup raises, so the loop, which would send the write to
  each child, is never entered, and the branch for a returned value only closes the
  case distinction.
\<close>

definition Node__set_nodes :: "Node \<Rightarrow> ranges_array \<Rightarrow> real list \<Rightarrow> (error + bool) \<times> Node" where
  "Node__set_nodes self coords v =
     (case Node_divided_ranges self coords of
        Inl e \<Rightarrow> (Inl e, self)
      | Inr divided \<Rightarrow> (Inr True, self))"

text \<open>
  \<open>Node.__setitem__(coords, value)\<close>. The condition is
  \<open>self.level <= self.max_level and not self._contained_by(coords)\<close>: the second operand
  is evaluated only when the first holds.
\<close>

definition Node_setitem :: "Node \<Rightarrow> ranges_array \<Rightarrow> real list \<Rightarrow> (error + bool) \<times> Node" where
  "Node_setitem self coords v =
     (if level self \<le> max_level self then
        (case Node__contained_by self coords of
           Inl e \<Rightarrow> (Inl e, self)
         | Inr True \<Rightarrow> (Inr True, set_attrs self v)
         | Inr False \<Rightarrow>
             (case (if nodes self = None then Node__split self else (Inr (), self)) of
                (Inl e, s1) \<Rightarrow> (Inl e, s1)
              | (Inr _, s1) \<Rightarrow>
                  (case Node__set_nodes s1 coords v of
                     (Inl e, s2) \<Rightarrow> (Inl e, s2)
                   | (Inr _, s2) \<Rightarrow>
                       (case Node__merge s2 of
                          (Inl e, s3) \<Rightarrow> (Inl e, s3)
                        | (Inr _, s3) \<Rightarrow> (Inr True, s3)))))
      else (Inr True, set_attrs self v))"

subsection \<open>Ntree\<close>

text \<open>
  A double as numpy holds it: a finite number, an infinity or NaN.
\<close>

datatype npfloat = Fin real | PosInf | NegInf | NaN

text \<open>
  The arithmetic of doubles that the constructor uses is a parameter of the model, so
  that what is proved of the constructor holds for that arithmetic with its rounding,
  overflow and underflow, whatever they are:
  \<^item> \<open>fsub x y\<close> is \<open>x - y\<close>, as \<open>np.diff\<close> computes it;
  \<^item> \<open>fdiv x y\<close> is \<open>x / y\<close> on arrays (a zero divisor gives an infinity or NaN with
    a warning, not an exception);
  \<^item> \<open>fmul x y\<close> is \<open>x * y\<close>;
  \<^item> \<open>flog2 x\<close> is \<open>np.log2(x)\<close>;
  \<^item> \<open>fpow2 k\<close> is the Python expression \<open>2. ** k\<close> for an integer \<open>k\<close>, which raises
    \<open>OverflowError\<close> when the result is too large for a double.
\<close>

record float_ops =
  fsub :: "real \<Rightarrow> real \<Rightarrow> npfloat"
  fdiv :: "npfloat \<Rightarrow> npfloat \<Rightarrow> npfloat"
  fmul :: "npfloat \<Rightarrow> npfloat \<Rightarrow> npfloat"
  flog2 :: "npfloat \<Rightarrow> npfloat"
  fpow2 :: "int \<Rightarrow> error + npfloat"

text \<open>
  The attributes assigned by \<open>Ntree.__init__\<close>. \<open>tree_dims\<close> and \<open>tree_ranges\<close> are
  the attributes \<open>dims\<close> and \<open>ranges\<close> of the source (renamed apart from the fields of
  \<open>Node\<close>); \<open>tree_dims\<close> is \<open>None\<close> when \<open>n_dimensions\<close> is not given. The bounds
  given by the caller are finite numbers; the resolution is computed and may be any
  double.
\<close>

record Ntree =
  tree_dims :: "nat option"
  tree_ranges :: ranges_array
  resolution :: "npfloat list"
  max_depth :: int
  dflt_attrs :: "real list"
  n_attrs :: nat
  root :: Node

text \<open>An argument that is either a number or a sequence of numbers.\<close>

datatype scalar_or_seq = Scalar real | Seq "real list"

text \<open>
  The maximum of two doubles as \<open>np.max\<close> folds it: NaN propagates. Comparing doubles
  does not round.
\<close>

fun np_maximum :: "npfloat \<Rightarrow> npfloat \<Rightarrow> npfloat" where
  "np_maximum NaN _ = NaN"
| "np_maximum _ NaN = NaN"
| "np_maximum PosInf _ = PosInf"
| "np_maximum _ PosInf = PosInf"
| "np_maximum NegInf y = y"
| "np_maximum x NegInf = x"
| "np_maximum (Fin x) (Fin y) = Fin (max x y)"

text \<open>\<open>np.max\<close> raises \<open>ValueError\<close> on an array with no element.\<close>

fun np_max :: "npfloat list \<Rightarrow> error + npfloat" where
  "np_max [] = Inl ValueError"
| "np_max (x # xs) = Inr (foldl np_maximum x xs)"

text \<open>
  \<open>int(np.ceil(x))\<close>: the ceiling of a double is exact, and \<open>int\<close> raises on NaN and
  on the infinities.
\<close>

fun int_ceil :: "npfloat \<Rightarrow> error + int" where
  "int_ceil (Fin x) = Inr \<lceil>x\<rceil>"
| "int_ceil NaN = Inl ValueError"
| "int_ceil PosInf = Inl OverflowError"
| "int_ceil NegInf = Inl OverflowError"

text \<open>
  \<open>np.diff(ranges, axis=-1).flatten()\<close>, the span of each axis, and the elementwise
  division of a one-dimensional array by a sequence with numpy's broadcasting: equal
  lengths, or one side of length 1; any other pair of lengths is \<open>ValueError\<close>.
\<close>

definition np_diff :: "float_ops \<Rightarrow> ranges_array \<Rightarrow> npfloat list" where
  "np_diff ops rs = map (\<lambda>(lo, hi). fsub ops hi lo) rs"

definition np_divide_broadcast ::
  "float_ops \<Rightarrow> npfloat list \<Rightarrow> npfloat list \<Rightarrow> error + npfloat list" where
  "np_divide_broadcast ops xs ys =
     (if length xs = length ys then Inr (map2 (fdiv ops) xs ys)
      else if length ys = 1 then Inr (map (\<lambda>x. fdiv ops x (hd ys)) xs)
      else if length xs = 1 then Inr (map (\<lambda>y. fdiv ops (hd xs) y) ys)
      else Inl ValueError)"

text \<open>
  \<open>resolution if hasattr(resolution, '__len__') else [resolution] * n\<close>; multiplying a
  list by \<open>None\<close> raises \<open>TypeError\<close>.
\<close>

fun seq_of :: "scalar_or_seq \<Rightarrow> nat option \<Rightarrow> error + real list" where
  "seq_of (Seq xs) _ = Inr xs"
| "seq_of (Scalar x) (Some n) = Inr (replicate n x)"
| "seq_of (Scalar x) None = Inl TypeError"

text \<open>
  The first statement of \<open>Ntree.__init__\<close>:
  \<open>self.dims = len(ranges) if n_dimensions is not None else n_dimensions\<close>.
\<close>

definition init_dims :: "ranges_array option \<Rightarrow> int option \<Rightarrow> error + nat option" where
  "init_dims rs n_dimensions =
     (case n_dimensions of
        None \<Rightarrow> Inr None
      | Some _ \<Rightarrow> (case rs of None \<Rightarrow> Inl TypeError | Some r \<Rightarrow> Inr (Some (length r))))"

text \<open>
  The depth computed from the resolution:
  \<open>steps = np.diff(ranges, axis=-1).flatten() / resolution\<close> and
  \<open>max_depth = int(np.ceil(np.max(np.log2(steps))))\<close>.
\<close>

definition depth_of_resolution :: "float_ops \<Rightarrow> ranges_array \<Rightarrow> real list \<Rightarrow> error + int" where
  "depth_of_resolution ops r res =
     (case np_divide_broadcast ops (np_diff ops r) (map Fin res) of
        Inl e \<Rightarrow> Inl e
      | Inr steps \<Rightarrow>
          (case np_max (map (flog2 ops) steps) of Inl e \<Rightarrow> Inl e | Inr m \<Rightarrow> int_ceil m))"

text \<open>
  The ranges of the branch without ranges,
  \<open>[0, resolution[i] * 2.**max_depth]\<close> for each \<open>i\<close> in \<open>range(self.dims)\<close>, for \<open>self.dims\<close>
  a number \<open>d\<close>: the first element evaluates \<open>resolution[0]\<close> and then \<open>2.**max_depth\<close>,
  a later one raises \<open>IndexError\<close> past the end of the resolution. The constructor never
  gets here (\<open>self.dims\<close> is a number only when ranges were given), and the model, whose
  bounds are finite numbers, keeps 0 for an upper bound that is not finite.
\<close>

fun fin_value :: "npfloat \<Rightarrow> real" where
  "fin_value (Fin x) = x"
| "fin_value _ = 0"

definition default_ranges ::
  "float_ops \<Rightarrow> real list \<Rightarrow> nat \<Rightarrow> int \<Rightarrow> error + ranges_array" where
  "default_ranges ops rl d md =
     (if d = 0 then Inr []
      else if rl = [] then Inl IndexError
      else
        (case fpow2 ops md of
           Inl e \<Rightarrow> Inl e
         | Inr p \<Rightarrow>
             if length rl < d then Inl IndexError
             else Inr (map (\<lambda>i. (0, fin_value (fmul ops (Fin (rl ! i)) p))) [0..<d])))"

text \<open>
  The block ``parse data to create the first node and the mapping space'': from the
  arguments and \<open>self.dims\<close> to the ranges, the resolution and the depth that are stored.
  With ranges and no resolution, the resolution is
  \<open>np.diff(ranges, axis=-1).flatten() / 2. ** max_depth\<close>. Without ranges,
  \<open>[resolution] * self.dims\<close> and \<open>range(self.dims)\<close> raise \<open>TypeError\<close> when
  \<open>self.dims\<close> is \<open>None\<close>.
\<close>

definition init_space ::
  "float_ops \<Rightarrow> ranges_array option \<Rightarrow> scalar_or_seq option \<Rightarrow> nat option \<Rightarrow> int \<Rightarrow>
   error + (ranges_array \<times> npfloat list \<times> int)" where
  "init_space ops rs res ds md =
     (case rs of
        Some r \<Rightarrow>
          (case res of
             Some rv \<Rightarrow>
               (case seq_of rv (Some (length r)) of
                  Inl e \<Rightarrow> Inl e
                | Inr rl \<Rightarrow>
                    (case depth_of_resolution ops r rl of
                       Inl e \<Rightarrow> Inl e
                     | Inr md' \<Rightarrow> Inr (r, map Fin rl, md')))
           | None \<Rightarrow>
               (case fpow2 ops md of
                  Inl e \<Rightarrow> Inl e
                | Inr p \<Rightarrow> Inr (r, map (\<lambda>s. fdiv ops s p) (np_diff ops r), md)))
      | None \<Rightarrow>
          (case seq_of (case res of None \<Rightarrow> Scalar 1 | Some rv \<Rightarrow> rv) ds of
             Inl e \<Rightarrow> Inl e
           | Inr rl \<Rightarrow>
               (case ds of
                  None \<Rightarrow> Inl TypeError
                | Some d \<Rightarrow>
                    (case default_ranges ops rl d md of
                       Inl e \<Rightarrow> Inl e
                     | Inr r \<Rightarrow> Inr (r, map Fin rl, md)))))"

text \<open>
  \<open>Ntree.__init__(ranges, resolution, attrs, n_dimensions, max_depth)\<close>. After the
  block above it stores \<open>dflt_attrs\<close> (a scalar \<open>attrs\<close> wrapped in a list) and
  \<open>n_attrs = len(attrs)\<close>, of the argument itself: \<open>TypeError\<close> for a scalar.
  \<open>_assert_construction\<close> does nothing. The root is \<open>Node(self.ranges, attrs,
  max_level=max_depth)\<close>.
\<close>

definition Ntree_init ::
  "float_ops \<Rightarrow> ranges_array option \<Rightarrow> scalar_or_seq option \<Rightarrow> scalar_or_seq \<Rightarrow>
   int option \<Rightarrow> int \<Rightarrow> error + Ntree" where
  "Ntree_init ops rs res a n_dimensions md =
     (case init_dims rs n_dimensions of
        Inl e \<Rightarrow> Inl e
      | Inr ds \<Rightarrow>
          (case init_space ops rs res ds md of
             Inl e \<Rightarrow> Inl e
           | Inr (r, rl, md') \<Rightarrow>
               (case a of
                  Scalar x \<Rightarrow> Inl TypeError
                | Seq xs \<Rightarrow>
                    Inr \<lparr>tree_dims = ds, tree_ranges = r, resolution = rl, max_depth = md',
                         dflt_attrs = xs, n_attrs = length xs,
                         root = Node_init r xs 0 md'\<rparr>)))"

text \<open>
  The arithmetic computed exactly, with the infinities and NaN where a divisor or an
  argument is zero, negative or not finite, and with the range of \<open>2. ** k\<close>
  (\<open>OverflowError\<close> from \<open>k = 1024\<close>, zero below \<open>k = -1074\<close>). It is the arithmetic of
  doubles wherever the exact result is a double, and it is used only to evaluate the
  constructor on such arguments, in the examples below.
\<close>

definition np_divide :: "real \<Rightarrow> real \<Rightarrow> npfloat" where
  "np_divide x y =
     (if y \<noteq> 0 then Fin (x / y) else if 0 < x then PosInf else if x < 0 then NegInf else NaN)"

fun exact_div :: "npfloat \<Rightarrow> npfloat \<Rightarrow> npfloat" where
  "exact_div (Fin x) (Fin y) = np_divide x y"
| "exact_div NaN _ = NaN"
| "exact_div _ NaN = NaN"
| "exact_div PosInf (Fin y) = (if 0 \<le> y then PosInf else NegInf)"
| "exact_div NegInf (Fin y) = (if 0 \<le> y then NegInf else PosInf)"
| "exact_div (Fin x) _ = Fin 0"
| "exact_div _ _ = NaN"

fun exact_mul :: "npfloat \<Rightarrow> npfloat \<Rightarrow> npfloat" where
  "exact_mul (Fin x) (Fin y) = Fin (x * y)"
| "exact_mul NaN _ = NaN"
| "exact_mul _ NaN = NaN"
| "exact_mul PosInf (Fin y) = (if 0 < y then PosInf else if y < 0 then NegInf else NaN)"
| "exact_mul NegInf (Fin y) = (if 0 < y then NegInf else if y < 0 then PosInf else NaN)"
| "exact_mul (Fin x) PosInf = (if 0 < x then PosInf else if x < 0 then NegInf else NaN)"
| "exact_mul (Fin x) NegInf = (if 0 < x then NegInf else if x < 0 then PosInf else NaN)"
| "exact_mul PosInf PosInf = PosInf"
| "exact_mul NegInf NegInf = PosInf"
| "exact_mul _ _ = NegInf"

fun exact_log2 :: "npfloat \<Rightarrow> npfloat" where
  "exact_log2 (Fin x) = (if 0 < x then Fin (log 2 x) else if x = 0 then NegInf else NaN)"
| "exact_log2 PosInf = PosInf"
| "exact_log2 NegInf = NaN"
| "exact_log2 NaN = NaN"

definition exact_pow2 :: "int \<Rightarrow> error + npfloat" where
  "exact_pow2 k =
     (if 1024 \<le> k then Inl OverflowError
      else if k < - 1074 then Inr (Fin 0)
      else Inr (Fin (2 powi k)))"

definition exact_ops :: float_ops where
  "exact_ops = \<lparr>fsub = (\<lambda>x y. Fin (x - y)), fdiv = exact_div, fmul = exact_mul,
     flog2 = exact_log2, fpow2 = exact_pow2\<rparr>"

text \<open>The default of the parameter \<open>max_depth\<close>.\<close>

definition default_max_depth :: int where
  "default_max_depth = 8"

subsection \<open>Coordinates\<close>

text \<open>
  One element of the \<open>coords\<close> argument: a \<open>slice(start, stop, step)\<close>, each part a
  float or \<open>None\<close>, or a float. The argument itself is one element or a sequence of
  elements (an object with \<open>__len__\<close>).
\<close>

datatype coord = PySlice "real option" "real option" "real option" | PyFloat real

datatype coords_arg = One coord | Many "coord list"

text \<open>
  Class \<open>Ntree\<close> has the attribute \<open>max_depth\<close>, but no attribute \<open>max_level\<close> and no
  attribute \<open>level\<close>, which the scalar branch of \<open>_parse_coords\<close> reads.
\<close>

definition Ntree_max_level :: "Ntree \<Rightarrow> error + int" where
  "Ntree_max_level self = Inl AttributeError"

definition Ntree_level :: "Ntree \<Rightarrow> error + int" where
  "Ntree_level self = Inl AttributeError"

text \<open>
  The loop of \<open>_parse_coords\<close> over \<open>enumerate(coords)\<close>, on the copy \<open>rs\<close> of
  \<open>self.ranges\<close>. Row \<open>i\<close> of \<open>self.ranges\<close> is read for a missing side of a slice and
  for the span of a scalar, and row \<open>i\<close> of the copy is assigned: both are
  \<open>IndexError\<close> past the last row.
\<close>

fun parse_loop :: "Ntree \<Rightarrow> nat \<Rightarrow> coord list \<Rightarrow> ranges_array \<Rightarrow> error + ranges_array" where
  "parse_loop self i [] rs = Inr rs"
| "parse_loop self i (PySlice st sp stp # els) rs =
     (if i < length (tree_ranges self) \<and> i < length rs then
        (let start = (case st of Some x \<Rightarrow> x | None \<Rightarrow> fst (tree_ranges self ! i));
             end = (case sp of Some x \<Rightarrow> x | None \<Rightarrow> snd (tree_ranges self ! i))
         in parse_loop self (Suc i) els (rs[i := (start, end)]))
      else Inl IndexError)"
| "parse_loop self i (PyFloat c # els) rs =
     (if i < length (tree_ranges self) \<and> i < length rs then
        (case Ntree_max_level self of
           Inl e \<Rightarrow> Inl e
         | Inr mx \<Rightarrow>
             (case Ntree_level self of
                Inl e \<Rightarrow> Inl e
              | Inr lv \<Rightarrow>
                  (let start = c;
                       end = start +
                         (snd (tree_ranges self ! i) - fst (tree_ranges self ! i)) / 2 powi (mx - lv)
                   in parse_loop self (Suc i) els (rs[i := (start, end)]))))
      else Inl IndexError)"

text \<open>
  \<open>Ntree._parse_coords(coords)\<close>. In Python 2 an integer is never \<open><= None\<close>, so the
  assertion \<open>len(coords) <= self.dims\<close> fails when \<open>self.dims\<close> is \<open>None\<close>.
\<close>

definition Ntree__parse_coords :: "Ntree \<Rightarrow> coords_arg \<Rightarrow> error + ranges_array" where
  "Ntree__parse_coords self coords =
     (let cs = (case coords of One c \<Rightarrow> [c] | Many xs \<Rightarrow> xs) in
      case tree_dims self of
        None \<Rightarrow> Inl AssertionError
      | Some d \<Rightarrow>
          if length cs \<le> d then parse_loop self 0 cs (tree_ranges self)
          else Inl AssertionError)"

text \<open>
  The three wrappers. Each has the parameters \<open>(self, coords)\<close> and the same body:
  parse the coordinates, then \<open>return self.root.__getitem__(coords)\<close>. None of them
  assigns anything, so the tree after the call is the tree before it.
\<close>

definition Ntree_getitem :: "Ntree \<Rightarrow> coords_arg \<Rightarrow> (error + real list) \<times> Ntree" where
  "Ntree_getitem self coords =
     (case Ntree__parse_coords self coords of
        Inl e \<Rightarrow> (Inl e, self)
      | Inr cs \<Rightarrow> (Node_getitem (root self) cs, self))"

definition Ntree_setitem :: "Ntree \<Rightarrow> coords_arg \<Rightarrow> (error + real list) \<times> Ntree" where
  "Ntree_setitem self coords =
     (case Ntree__parse_coords self coords of
        Inl e \<Rightarrow> (Inl e, self)
      | Inr cs \<Rightarrow> (Node_getitem (root self) cs, self))"

definition Ntree_delitem :: "Ntree \<Rightarrow> coords_arg \<Rightarrow> (error + real list) \<times> Ntree" where
  "Ntree_delitem self coords =
     (case Ntree__parse_coords self coords of
        Inl e \<Rightarrow> (Inl e, self)
      | Inr cs \<Rightarrow> (Node_getitem (root self) cs, self))"

subsection \<open>Sequences of calls and the shape of a tree\<close>

text \<open>
  A call on a tree: one of the three wrappers, or a write sent to the root node itself,
  \<open>t.root.__setitem__(coords, value)\<close>. A caller that catches the exception of one call
  goes on with the tree as that call left it.
\<close>

datatype call = Get coords_arg | Set coords_arg | Del coords_arg
  | RootSet ranges_array "real list"

fun step :: "Ntree \<Rightarrow> call \<Rightarrow> Ntree" where
  "step t (Get c) = snd (Ntree_getitem t c)"
| "step t (Set c) = snd (Ntree_setitem t c)"
| "step t (Del c) = snd (Ntree_delitem t c)"
| "step t (RootSet c v) = t\<lparr>root := snd (Node_setitem (root t) c v)\<rparr>"

definition run :: "Ntree \<Rightarrow> call list \<Rightarrow> Ntree" where
  "run t calls = foldl step t calls"

text \<open>
  A node is minimal when neither it nor any descendant is an internal node all of whose
  children are leaves with the same attribute vector.
\<close>

fun collapsible :: "Node list \<Rightarrow> bool" where
  "collapsible [] = True"
| "collapsible (n0 # ns) =
     list_all (\<lambda>n. nodes n = None \<and> attrs n = attrs n0) (n0 # ns)"

fun minimal :: "Node \<Rightarrow> bool" where
  "minimal (Node d c r a l m None) = True"
| "minimal (Node d c r a l m (Some ns)) = (\<not> collapsible ns \<and> list_all minimal ns)"

subsection \<open>Example objects\<close>

text \<open>
  \<open>Ntree([(0, 4)], None, [0], 1, 2)\<close>: one axis from 0 to 4, depth 2, cells of size 1.
\<close>

definition tree_1d :: Ntree where
  "tree_1d = \<lparr>tree_dims = Some 1, tree_ranges = [(0, 4)], resolution = [Fin 1],
     max_depth = 2, dflt_attrs = [0], n_attrs = 1, root = Node 2 [2] [(0, 4)] [0] 0 2 None\<rparr>"

text \<open>\<open>Ntree([], None, [7], 0, 8)\<close>: no axis at all; the only region is \<open>()\<close>.\<close>

definition tree_0d :: Ntree where
  "tree_0d = \<lparr>tree_dims = Some 0, tree_ranges = [], resolution = [], max_depth = 8,
     dflt_attrs = [7], n_attrs = 1, root = Node 1 [] [] [7] 0 8 None\<rparr>"

text \<open>\<open>Ntree([(0, 4)], None, [0], 1, 0)\<close>: the root is at the maximal depth.\<close>

definition tree_depth0 :: Ntree where
  "tree_depth0 = \<lparr>tree_dims = Some 1, tree_ranges = [(0, 4)], resolution = [Fin 4],
     max_depth = 0, dflt_attrs = [0], n_attrs = 1, root = Node 2 [2] [(0, 4)] [0] 0 0 None\<rparr>"

text \<open>
  \<open>Ntree([(0, 4)], None, [0], 1, -1)\<close>, which is also \<open>Ntree([(0, 4)], 8, [0], 1)\<close>,
  a resolution coarser than the range; and the same tree after
  \<open>t.root.__setitem__(np.array([(0., 4.)]), [5])\<close>: its root holds \<open>[5]\<close>, its default
  is \<open>[0]\<close>.
\<close>

definition tree_coarse :: Ntree where
  "tree_coarse = \<lparr>tree_dims = Some 1, tree_ranges = [(0, 4)], resolution = [Fin 8],
     max_depth = - 1, dflt_attrs = [0], n_attrs = 1,
     root = Node 2 [2] [(0, 4)] [0] 0 (- 1) None\<rparr>"

definition tree_coarse_used :: Ntree where
  "tree_coarse_used = tree_coarse\<lparr>root := Node 2 [2] [(0, 4)] [5] 0 (- 1) None\<rparr>"

text \<open>
  Two axes, from 0 to 4 and from 0 to 1: \<open>Ntree([(0, 4), (0, 1)], 1, [0], 2)\<close>, whose
  depth comes from the resolution 1, and \<open>Ntree([(0, 4), (0, 1)], None, [0], 2, 2)\<close>,
  whose resolution comes from the depth 2.
\<close>

definition tree_2d_by_resolution :: Ntree where
  "tree_2d_by_resolution = \<lparr>tree_dims = Some 2, tree_ranges = [(0, 4), (0, 1)],
     resolution = [Fin 1, Fin 1], max_depth = 2, dflt_attrs = [0], n_attrs = 1,
     root = Node 2 [2, 1 / 2] [(0, 4), (0, 1)] [0] 0 2 None\<rparr>"

definition tree_2d_by_depth :: Ntree where
  "tree_2d_by_depth = \<lparr>tree_dims = Some 2, tree_ranges = [(0, 4), (0, 1)],
     resolution = [Fin 1, Fin (1 / 4)], max_depth = 2, dflt_attrs = [0], n_attrs = 1,
     root = Node 2 [2, 1 / 2] [(0, 4), (0, 1)] [0] 0 2 None\<rparr>"

text \<open>
  A node over \<open>[0, 4)\<close> with two internal children. The children of the first hold
  \<open>[1]\<close> and \<open>[2]\<close>; the children of the second both hold \<open>[3]\<close>.
\<close>

definition skewed_low :: Node where
  "skewed_low = Node 2 [1] [(0, 2)] [0] 1 2 (Some
     [Node 2 [1 / 2] [(0, 1)] [1] 2 2 None, Node 2 [3 / 2] [(1, 2)] [2] 2 2 None])"

definition skewed_high :: Node where
  "skewed_high = Node 2 [3] [(2, 4)] [0] 1 2 (Some
     [Node 2 [5 / 2] [(2, 3)] [3] 2 2 None, Node 2 [7 / 2] [(3, 4)] [3] 2 2 None])"

definition skewed :: Node where
  "skewed = Node 2 [2] [(0, 4)] [0] 0 2 (Some [skewed_low, skewed_high])"



section \<open>Properties\<close>

subsection \<open>The example objects are what the constructor returns\<close>

lemmas init_defs = Ntree_init_def init_dims_def init_space_def np_diff_def Node_init_def
  depth_of_resolution_def np_divide_broadcast_def np_divide_def exact_ops_def exact_pow2_def


lemma tree_0d_constructed:
  "Ntree_init exact_ops (Some []) None (Seq [7]) (Some 0) 8 = Inr tree_0d"
  by (simp add: init_defs tree_0d_def)

lemma tree_depth0_constructed:
  "Ntree_init exact_ops (Some [(0, 4)]) None (Seq [0]) (Some 1) 0 = Inr tree_depth0"
  by (simp add: init_defs tree_depth0_def)

lemma tree_coarse_constructed:
  "Ntree_init exact_ops (Some [(0, 4)]) None (Seq [0]) (Some 1) (- 1) = Inr tree_coarse"
  by (simp add: init_defs tree_coarse_def)

lemma tree_coarse_used_reached: "run tree_coarse [RootSet [(0, 4)] [5]] = tree_coarse_used"
  by (simp add: run_def Node_setitem_def tree_coarse_def tree_coarse_used_def)

lemma log2_4: "log 2 (4::real) = 2"
proof -
  have "log 2 ((2::real) ^ 2) = 2" by (simp only: log_pow_cancel)
  then show ?thesis by simp
qed

lemma tree_1d_by_resolution:
  "Ntree_init exact_ops (Some [(0, 4)]) (Some (Scalar 1)) (Seq [0]) (Some 1) md = Inr tree_1d"
  by (simp add: init_defs tree_1d_def log2_4)

lemma log2_half: "log 2 (1 / 2 :: real) = - 1"
  by (simp add: log_divide)

lemma ceiling_minus_1: "\<lceil>- 1 :: real\<rceil> = - 1"
  by (simp add: ceiling_eq_iff)

lemma tree_coarse_by_resolution:
  "Ntree_init exact_ops (Some [(0, 4)]) (Some (Scalar 8)) (Seq [0]) (Some 1) md
     = Inr tree_coarse"
  by (simp add: init_defs tree_coarse_def log2_half ceiling_minus_1)

lemma tree_2d_by_resolution_constructed:
  "Ntree_init exact_ops (Some [(0, 4), (0, 1)]) (Some (Scalar 1)) (Seq [0]) (Some 2) md
     = Inr tree_2d_by_resolution"
  by (simp add: init_defs tree_2d_by_resolution_def log2_4 numeral_2_eq_2)

lemma tree_2d_by_depth_constructed:
  "Ntree_init exact_ops (Some [(0, 4), (0, 1)]) None (Seq [0]) (Some 2) 2
     = Inr tree_2d_by_depth"
  by (simp add: init_defs tree_2d_by_depth_def)

text \<open>
  The call at the end of the module, \<open>Ntree([(0, 100), (0, 100)], 0)\<close>, passes 0 as the
  resolution: the steps are infinite and \<open>int\<close> raises.
\<close>

lemma module_example_raises:
  "Ntree_init exact_ops (Some [(0, 100), (0, 100)]) (Some (Scalar 0)) (Scalar 0) None
     default_max_depth = Inl OverflowError"
  by (simp add: init_defs numeral_2_eq_2)

text \<open>
  The power \<open>2. ** max_depth\<close> decides whether a tree without a resolution can be
  built: when it overflows, so does the constructor.
\<close>

lemma init_pow2_overflow:
  "fpow2 ops md = Inl e \<Longrightarrow> Ntree_init ops (Some r) None a nd md = Inl e"
  by (simp add: Ntree_init_def init_dims_def init_space_def split: option.splits)

text \<open>
  Without ranges the constructor always raises: \<open>self.dims\<close> is \<open>None\<close> or
  \<open>len(None)\<close> is evaluated.
\<close>

lemma seq_of_error: "seq_of rv ds = Inl e \<Longrightarrow> e = TypeError"
  by (cases rv; cases ds) simp_all

lemma init_without_ranges: "Ntree_init ops None res a nd md = Inl TypeError"
  by (cases nd; cases res)
     (auto simp: Ntree_init_def init_dims_def init_space_def split: sum.splits
       dest: seq_of_error)


lemma init_root_leaf: "Ntree_init ops rs res a nd md = Inr t \<Longrightarrow> nodes (root t) = None"
  by (auto simp: Ntree_init_def Node_init_def split: sum.splits prod.splits scalar_or_seq.splits)

subsection \<open>The maximum of finite doubles\<close>

lemma foldl_np_maximum_Fin: "foldl np_maximum (Fin x) (map Fin xs) = Fin (foldl max x xs)"
  by (induction xs arbitrary: x) simp_all

lemma foldl_max_Max: "foldl max x xs = Max (set (x # xs))" for x :: real
proof -
  have "(\<lambda>a b. max b a) = (max :: real \<Rightarrow> real \<Rightarrow> real)"
    by (intro ext) (simp add: max.commute)
  then show ?thesis
    by (simp only: foldl_conv_fold Max.set_eq_fold)
qed

lemma np_max_Fin:
  "xs \<noteq> [] \<Longrightarrow> np_max (map Fin xs) = Inr (Fin (Max (set xs)))"
  by (cases xs) (simp_all only: list.map np_max.simps foldl_np_maximum_Fin foldl_max_Max, simp)

lemma map_log2_steps:
  "length r = length rl \<Longrightarrow>
   map (flog2 ops) (map2 (fdiv ops) (map (\<lambda>(lo, hi). fsub ops hi lo) r) (map Fin rl))
     = map2 (\<lambda>(lo, hi) q. flog2 ops (fdiv ops (fsub ops hi lo) (Fin q))) r rl"
  by (induction r rl rule: list_induct2) auto

text \<open>
  With one resolution per axis and finite logarithms \<open>xs\<close>, the computed depth is the
  ceiling of the largest of them.
\<close>

lemma depth_of_resolution_finite:
  assumes "length rl = length r"
    and "map2 (\<lambda>(lo, hi) q. flog2 ops (fdiv ops (fsub ops hi lo) (Fin q))) r rl = map Fin xs"
    and "r \<noteq> []"
  shows "depth_of_resolution ops r rl = Inr \<lceil>Max (set xs)\<rceil>"
proof -
  from assms(2) have "length xs = length (zip r rl)"
    by (metis length_map)
  with assms(1,3) have xs: "xs \<noteq> []" by auto
  have steps: "np_divide_broadcast ops (np_diff ops r) (map Fin rl)
      = Inr (map2 (fdiv ops) (map (\<lambda>(lo, hi). fsub ops hi lo) r) (map Fin rl))"
    using assms(1) by (simp add: np_divide_broadcast_def np_diff_def)
  have logs: "map (flog2 ops) (map2 (fdiv ops) (map (\<lambda>(lo, hi). fsub ops hi lo) r) (map Fin rl))
      = map Fin xs"
    using map_log2_steps [of r rl ops] assms(1,2) by simp
  show ?thesis
    unfolding depth_of_resolution_def steps
    by (simp only: sum.case logs np_max_Fin [OF xs] int_ceil.simps)
qed

lemma depth_of_resolution_no_axis: "depth_of_resolution ops [] [] = Inl ValueError"
  by (simp add: depth_of_resolution_def np_divide_broadcast_def np_diff_def)

subsection \<open>Parsing coordinates\<close>

lemma parse_1d_slice:
  "Ntree__parse_coords tree_1d (One (PySlice (Some a) (Some b) s)) = Inr [(a, b)]"
  by (simp add: Ntree__parse_coords_def tree_1d_def)

lemma parse_0d: "Ntree__parse_coords tree_0d (Many []) = Inr []"
  by (simp add: Ntree__parse_coords_def tree_0d_def)


text \<open>A slice with a missing side takes that side from the tree's range on its axis.\<close>

lemma parse_1d_open_slice:
  "Ntree__parse_coords tree_1d (One (PySlice None (Some 3) None)) = Inr [(0, 3)]"
  "Ntree__parse_coords tree_1d (One (PySlice (Some 1) None None)) = Inr [(1, 4)]"
  "Ntree__parse_coords tree_1d (One (PySlice None None None)) = Inr [(0, 4)]"
  by (simp_all add: Ntree__parse_coords_def tree_1d_def)

subsection \<open>Writes to a node\<close>

lemma nodes_set_attrs: "nodes (set_attrs n v) = nodes n"
  by (cases n) simp

text \<open>
  A write to a node whose level is at most \<open>max_level\<close> raises at \<open>_contained_by\<close>,
  before any assignment; a write to a deeper node assigns the attributes and nothing
  else.
\<close>

lemma Node_setitem_within_depth:
  "level n \<le> max_level n \<Longrightarrow> Node_setitem n c v = (Inl AttributeError, n)"
  by (simp add: Node_setitem_def Node__contained_by_def)

lemma Node_setitem_below_depth:
  "max_level n < level n \<Longrightarrow> Node_setitem n c v = (Inr True, set_attrs n v)"
  by (simp add: Node_setitem_def)

lemma Node_setitem_cases:
  "Node_setitem n c v = (Inl AttributeError, n) \<or> Node_setitem n c v = (Inr True, set_attrs n v)"
  using Node_setitem_within_depth [of n c v] Node_setitem_below_depth [of n c v]
  by (cases "level n \<le> max_level n") simp_all

lemma Node_setitem_nodes: "nodes (snd (Node_setitem n c v)) = nodes n"
  using Node_setitem_cases [of n c v] by (auto simp: nodes_set_attrs)

lemma wrappers_keep_tree:
  "snd (Ntree_getitem t c) = t" "snd (Ntree_setitem t c) = t" "snd (Ntree_delitem t c) = t"
  by (simp_all add: Ntree_getitem_def Ntree_setitem_def Ntree_delitem_def split: sum.splits)

lemma step_root_nodes: "nodes (root (step t c)) = nodes (root t)"
  by (cases c) (simp_all add: wrappers_keep_tree Node_setitem_nodes)

lemma run_root_nodes: "nodes (root (run t cs)) = nodes (root t)"
  unfolding run_def by (induction cs arbitrary: t) (simp_all add: step_root_nodes)

lemma leaf_minimal: "nodes n = None \<Longrightarrow> minimal n"
  by (cases n) simp



lemma root_stays_leaf:
  "Ntree_init ops rs res a nd md = Inr t \<Longrightarrow> nodes (root (run t calls)) = None"
  by (simp add: run_root_nodes init_root_leaf)

text \<open>A write keeps a minimal node minimal and a node that is not minimal as it is.\<close>

lemma minimal_set_attrs: "minimal (set_attrs n v) = minimal n"
  by (cases n; cases "nodes n") auto

lemma Node_setitem_minimal: "minimal (snd (Node_setitem n c v)) = minimal n"
  using Node_setitem_cases [of n c v] by (auto simp: minimal_set_attrs)


subsection \<open>Merge\<close>

text \<open>
  When \<open>_merge\<close> returns, its result says whether the node is a leaf afterwards, and
  the array of children keeps its length.
\<close>

lemma merge_leaf_iff:
  "Node__merge n = (Inr b, n') \<Longrightarrow> b = (nodes n' = None)"
  "merge_children ns = (res, ns') \<Longrightarrow> length ns' = length ns"
  by (induction n and ns arbitrary: b n' and res ns' rule: Node__merge_merge_children.induct)
     (auto split: sum.splits bool.splits list.splits if_splits prod.splits)

text \<open>
  Over children that are all leaves, \<open>_merge\<close> collapses the node exactly when their
  attribute vectors all equal the first one.
\<close>

lemma merge_children_leaves:
  "list_all (\<lambda>n. nodes n = None) ns \<Longrightarrow> merge_children ns = (Inr True, ns)"
proof (induction ns)
  case Nil
  then show ?case by simp
next
  case (Cons n ns)
  then obtain d c r a l m where n: "n = Node d c r a l m None" by (cases n) auto
  with Cons show ?case by simp
qed

lemma merge_over_leaves:
  assumes "list_all (\<lambda>n. nodes n = None) (n0 # ns)"
  shows "Node__merge (Node d c r a l m (Some (n0 # ns))) =
           (if list_all (\<lambda>n. attrs n0 = attrs n) (n0 # ns)
            then (Inr True, Node d c r (attrs n0) l m None)
            else (Inr False, Node d c r a l m (Some (n0 # ns))))"
  using merge_children_leaves [OF assms] by simp

text \<open>
  A child that stays internal ends the iteration: the children after it are returned
  as they were.
\<close>

lemma merge_stops_at_internal:
  "Node__merge n = (Inr False, n') \<Longrightarrow> merge_children (n # ns) = (Inr False, n' # ns)"
  by simp

section \<open>The claims\<close>

subsection \<open>C1: a set followed by a get\<close>

text \<open>
  C1 says that \<open>set(R, A)\<close> writes \<open>A\<close> to every cell of the region \<open>R\<close>, so that a
  following \<open>get(R)\<close> returns an array whose every element is \<open>A\<close>.

  \<open>Ntree.__setitem__\<close> has no parameter for \<open>A\<close> and only reads. On the tree
  \<open>Ntree([(0, 4)], None, [0], 1, 2)\<close> and the region \<open>[0, 2)\<close> both the set and the
  get raise \<open>AttributeError\<close> and the root keeps the attributes \<open>[0]\<close>; on the tree
  without axes, whose default is \<open>[7]\<close>, the set returns \<open>[7]\<close>, changes nothing, and
  the get returns \<open>[7]\<close> again, whatever vector the caller meant to store.
\<close>

theorem setitem_writes_nothing:
  "Ntree_setitem tree_1d (One (PySlice (Some 0) (Some 2) None)) = (Inl AttributeError, tree_1d)
   \<and> Ntree_getitem tree_1d (One (PySlice (Some 0) (Some 2) None)) = (Inl AttributeError, tree_1d)
   \<and> attrs (root tree_1d) = [0]
   \<and> Ntree_setitem tree_0d (Many []) = (Inr [7], tree_0d)
   \<and> Ntree_getitem tree_0d (Many []) = (Inr [7], tree_0d)"
  by (simp add: Ntree_setitem_def Ntree_getitem_def parse_1d_slice parse_0d Node_getitem_def)
     (simp add: tree_1d_def tree_0d_def)

subsection \<open>C2: delete and the write of the default\<close>

text \<open>
  C2 says that \<open>delete(R)\<close> is equivalent to \<open>set(R, default_attributes)\<close>, being routed
  through the same split and merge write path.

  \<open>Ntree.__delitem__\<close> never reaches \<open>Node.__setitem__\<close>. On a tree whose root holds
  \<open>[5]\<close> and whose default is \<open>[0]\<close>, the delete of the whole range raises and leaves
  \<open>[5]\<close> in the root, while the write path of the root, given the default, stores
  \<open>[0]\<close>.
\<close>

theorem delitem_writes_no_default:
  "Ntree_delitem tree_coarse_used (One (PySlice (Some 0) (Some 4) None))
     = (Inl AttributeError, tree_coarse_used)
   \<and> attrs (root tree_coarse_used) = [5] \<and> dflt_attrs tree_coarse_used = [0]
   \<and> Node_setitem (root tree_coarse_used) [(0, 4)] (dflt_attrs tree_coarse_used)
       = (Inr True, root tree_coarse)"
  by (simp add: Ntree_delitem_def Ntree__parse_coords_def Node_getitem_def Node_setitem_def
      tree_coarse_used_def tree_coarse_def)

subsection \<open>C3: minimality\<close>


subsection \<open>C4: merge\<close>

text \<open>
  C4 says that \<open>_merge\<close> on an internal node first merges every child, returns false
  if a child remains internal, and otherwise collapses the node when all attribute
  vectors are equal.

  The children are merged by a generator inside \<open>all\<close>, which stops at the first child
  that remains internal. On the node \<open>skewed\<close> the first child cannot collapse, so
  \<open>_merge\<close> returns false and leaves the whole node as it was: the second child, whose
  two leaves both hold \<open>[3]\<close> and which \<open>_merge\<close> would collapse, is never visited and
  stays internal.
\<close>

theorem merge_skips_later_children:
  "Node__merge skewed = (Inr False, skewed)
   \<and> nodes skewed = Some [skewed_low, skewed_high]
   \<and> nodes skewed_high \<noteq> None \<and> \<not> minimal skewed_high
   \<and> Node__merge skewed_high = (Inr True, Node 2 [3] [(2, 4)] [3] 1 2 None)"
  by (simp add: skewed_def skewed_low_def skewed_high_def)

subsection \<open>C5: the depth floor\<close>

text \<open>
  C5 says that a write reaching a node at depth \<open>max_depth\<close> always overwrites that
  node's attributes and never subdivides it.

  The test of \<open>Node.__setitem__\<close> is \<open>self.level <= self.max_level\<close>, so a node at
  the maximal depth takes the subdividing branch: the root of
  \<open>Ntree([(0, 4)], None, [0], 1, 0)\<close> raises on a partial and on a full region and
  keeps its attributes. Only a node one level deeper than \<open>max_level\<close> is overwritten,
  as the root of \<open>Ntree([(0, 4)], None, [0], 1, -1)\<close> is.
\<close>

theorem setitem_at_max_level_raises:
  "level (root tree_depth0) = max_level (root tree_depth0)
   \<and> max_level (root tree_depth0) = max_depth tree_depth0
   \<and> Node_setitem (root tree_depth0) [(0, 2)] [1] = (Inl AttributeError, root tree_depth0)
   \<and> Node_setitem (root tree_depth0) [(0, 4)] [1] = (Inl AttributeError, root tree_depth0)
   \<and> level (root tree_coarse) = max_level (root tree_coarse) + 1
   \<and> Node_setitem (root tree_coarse) [(0, 2)] [1]
       = (Inr True, Node 2 [2] [(0, 4)] [1] 0 (- 1) None)"
  by (simp add: Node_setitem_def Node__contained_by_def tree_depth0_def tree_coarse_def)

subsection \<open>C6: regions outside the bounds\<close>




subsection \<open>C7: resolution and depth in the constructor\<close>

text \<open>
  C7 says that with both a resolution and a depth the resolution is ignored, and that
  with neither the resolution is 1 on every axis.

  Against it: \<open>Ntree([(0, 4)], 1, [0], 1, 8)\<close> has depth 2, not 8, and
  \<open>Ntree([(0, 4)], None, [0], 1)\<close>, with the default depth 8, has resolution \<open>1/64\<close>.
\<close>

theorem explicit_depth_overridden:
  "map_sum id max_depth
     (Ntree_init exact_ops (Some [(0, 4)]) (Some (Scalar 1)) (Seq [0]) (Some 1) 8) = Inr 2
   \<and> map_sum id resolution
       (Ntree_init exact_ops (Some [(0, 4)]) None (Seq [0]) (Some 1) default_max_depth)
       = Inr [Fin (1 / 64)]"
  by (simp add: tree_1d_by_resolution)
     (simp add: tree_1d_def init_defs default_max_depth_def)

text \<open>
  C7 as amended, for every arithmetic of doubles. When ranges and a resolution are
  given, the depth argument is ignored: any other depth argument gives the same tree,
  and with one resolution per axis (a scalar resolution stands for every axis) and
  finite logarithms \<open>log2(span_i / resolution_i)\<close>, the tree's depth is the ceiling of
  the largest of them. When ranges are given without a resolution, the depth is the
  argument, \<open>2. ** max_depth\<close> has not overflowed, and the resolution of each axis is
  its span divided by that power.
\<close>

theorem init_resolution_precedence:
  "(Ntree_init ops (Some r) (Some res) a nd md = Inr t \<longrightarrow>
      Ntree_init ops (Some r) (Some res) a nd md' = Inr t
      \<and> (rl = (case res of Scalar q \<Rightarrow> replicate (length r) q | Seq qs \<Rightarrow> qs)
           \<and> length rl = length r
           \<and> map2 (\<lambda>(lo, hi) q. flog2 ops (fdiv ops (fsub ops hi lo) (Fin q))) r rl
               = map Fin xs
           \<longrightarrow> max_depth t = \<lceil>Max (set xs)\<rceil>))
   \<and> (Ntree_init ops (Some r) None a nd md = Inr t' \<longrightarrow>
      max_depth t' = md
      \<and> (\<exists>p. fpow2 ops md = Inr p
               \<and> resolution t' = map (\<lambda>(lo, hi). fdiv ops (fsub ops hi lo) p) r))"
proof (intro conjI impI)
  assume built: "Ntree_init ops (Some r) (Some res) a nd md = Inr t"
  then show "Ntree_init ops (Some r) (Some res) a nd md' = Inr t"
    by (auto simp: Ntree_init_def init_dims_def init_space_def
        split: sum.splits prod.splits option.splits scalar_or_seq.splits)
  assume fin: "rl = (case res of Scalar q \<Rightarrow> replicate (length r) q | Seq qs \<Rightarrow> qs)
    \<and> length rl = length r
    \<and> map2 (\<lambda>(lo, hi) q. flog2 ops (fdiv ops (fsub ops hi lo) (Fin q))) r rl = map Fin xs"
  then have len: "length rl = length r"
    and logs: "map2 (\<lambda>(lo, hi) q. flog2 ops (fdiv ops (fsub ops hi lo) (Fin q))) r rl
                = map Fin xs"
    by blast+
  from fin have rl: "seq_of res (Some (length r)) = Inr rl"
    by (cases res) simp_all
  from built rl have depth: "depth_of_resolution ops r rl = Inr (max_depth t)"
    by (auto simp: Ntree_init_def init_dims_def init_space_def
        split: sum.splits prod.splits option.splits scalar_or_seq.splits)
  have "r \<noteq> []"
  proof
    assume "r = []"
    with len have "rl = []" by simp
    with \<open>r = []\<close> depth show False
      by (simp add: depth_of_resolution_no_axis)
  qed
  then have "depth_of_resolution ops r rl = Inr \<lceil>Max (set xs)\<rceil>"
    by (rule depth_of_resolution_finite [OF len logs])
  with depth show "max_depth t = \<lceil>Max (set xs)\<rceil>" by simp
next
  assume "Ntree_init ops (Some r) None a nd md = Inr t'"
  then show "max_depth t' = md"
    and "\<exists>p. fpow2 ops md = Inr p
           \<and> resolution t' = map (\<lambda>(lo, hi). fdiv ops (fsub ops hi lo) p) r"
    by (auto simp: Ntree_init_def init_dims_def init_space_def np_diff_def
        split: sum.splits prod.splits option.splits scalar_or_seq.splits)
qed

theorem init_resolution_precedence_witness:
  "Ntree_init exact_ops (Some [(0, 4), (0, 1)]) (Some (Scalar 1)) (Seq [0]) (Some 2) 2
     = Inr tree_2d_by_resolution
   \<and> Ntree_init exact_ops (Some [(0, 4), (0, 1)]) (Some (Scalar 1)) (Seq [0]) (Some 2) 100
     = Inr tree_2d_by_resolution
   \<and> map2 (\<lambda>(lo, hi) q. flog2 exact_ops (fdiv exact_ops (fsub exact_ops hi lo) (Fin q)))
       [(0, 4), (0, 1)] [1, 1] = map Fin [2, 0]
   \<and> max_depth tree_2d_by_resolution = \<lceil>Max (set [2, 0 :: real])\<rceil>
   \<and> Ntree_init exact_ops (Some [(0, 4), (0, 1)]) None (Seq [0]) (Some 2) 2
     = Inr tree_2d_by_depth
   \<and> max_depth tree_2d_by_depth = 2
   \<and> fpow2 exact_ops 2 = Inr (Fin 4)
   \<and> resolution tree_2d_by_depth = [Fin 1, Fin (1 / 4)]"
proof -
  have logs: "map2 (\<lambda>(lo, hi) q. flog2 exact_ops (fdiv exact_ops (fsub exact_ops hi lo) (Fin q)))
      [(0, 4), (0, 1)] [1, 1] = map Fin [2, 0]"
    by (simp add: exact_ops_def np_divide_def log2_4)
  have pow: "fpow2 exact_ops 2 = Inr (Fin 4)"
    by (simp add: exact_ops_def exact_pow2_def)
  from init_resolution_precedence
    [of exact_ops "[(0, 4), (0, 1)]" "Scalar 1" "Seq [0]" "Some 2" 2 tree_2d_by_resolution
      100 "[1, 1]" "[2, 0]" tree_2d_by_depth]
    tree_2d_by_resolution_constructed [of 2] tree_2d_by_resolution_constructed [of 100]
    tree_2d_by_depth_constructed logs pow
  show ?thesis
    by (simp add: numeral_2_eq_2) (simp add: tree_2d_by_depth_def)
qed

subsection \<open>C8: scalar coordinates\<close>

text \<open>
  C8 says that a scalar coordinate \<open>c\<close> on axis \<open>i\<close> is expanded to
  \<open>[c, c + cellsize_i)\<close>, and that a slice with a missing side takes it from the
  tree's bound.

  The scalar branch of \<open>_parse_coords\<close> reads \<open>self.max_level\<close> and \<open>self.level\<close>,
  which an \<open>Ntree\<close> does not have: on \<open>Ntree([(0, 4)], None, [0], 1, 2)\<close> the
  coordinate \<open>1.0\<close> raises \<open>AttributeError\<close> instead of giving \<open>[1, 2)\<close>.
\<close>

theorem parse_coords_scalar_raises:
  "Ntree__parse_coords tree_1d (One (PyFloat 1)) = Inl AttributeError
   \<and> Ntree__parse_coords tree_1d (Many [PyFloat 1]) = Inl AttributeError"
  by (simp add: Ntree__parse_coords_def tree_1d_def Ntree_max_level_def)

subsection \<open>C9: set and delete only read\<close>

text \<open>
  C9: whenever \<open>Ntree.__setitem__\<close> or \<open>Ntree.__delitem__\<close> returns without an
  exception, the tree is unchanged and the value returned is the one
  \<open>Ntree.__getitem__\<close> returns for the same coordinates.
\<close>

theorem setitem_delitem_frame:
  "(Ntree_setitem t c = (Inr v, t') \<longrightarrow> t' = t \<and> Ntree_getitem t c = (Inr v, t))
   \<and> (Ntree_delitem t c = (Inr v, t') \<longrightarrow> t' = t \<and> Ntree_getitem t c = (Inr v, t))"
  by (auto simp: Ntree_setitem_def Ntree_delitem_def Ntree_getitem_def split: sum.splits)

theorem setitem_delitem_frame_witness:
  "Ntree_setitem tree_0d (Many []) = (Inr [7], tree_0d)
   \<and> Ntree_delitem tree_0d (Many []) = (Inr [7], tree_0d)
   \<and> Ntree_getitem tree_0d (Many []) = (Inr [7], tree_0d)"
proof -
  have s: "Ntree_setitem tree_0d (Many []) = (Inr [7], tree_0d)"
    by (simp add: Ntree_setitem_def parse_0d Node_getitem_def) (simp add: tree_0d_def)
  have d: "Ntree_delitem tree_0d (Many []) = (Inr [7], tree_0d)"
    by (simp add: Ntree_delitem_def parse_0d Node_getitem_def) (simp add: tree_0d_def)
  from setitem_delitem_frame [of tree_0d "Many []" "[7]" tree_0d] s d show ?thesis by simp
qed

subsection \<open>C10: scalar attributes\<close>

text \<open>
  C10: with a scalar \<open>attrs\<close>, the default 0 included, the constructor raises
  \<open>TypeError\<close> when it computes \<open>len(attrs)\<close>, so no tree is ever constructed from
  attributes without a length. The constructor returns the exception of an earlier
  statement if there is one, and \<open>TypeError\<close> otherwise; it never returns a tree.
\<close>

theorem init_scalar_attrs_raises:
  "Ntree_init ops rs res (Scalar x) nd md =
     (case init_dims rs nd of
        Inl e \<Rightarrow> Inl e
      | Inr ds \<Rightarrow>
          (case init_space ops rs res ds md of Inl e \<Rightarrow> Inl e | Inr _ \<Rightarrow> Inl TypeError))
   \<and> (\<nexists>t. Ntree_init ops rs res (Scalar x) nd md = Inr t)
   \<and> Ntree_init exact_ops (Some [(0, 100), (0, 100)]) None (Scalar 0) (Some 2)
         default_max_depth = Inl TypeError"
  by (auto simp: Ntree_init_def init_dims_def init_space_def exact_ops_def exact_pow2_def
      default_max_depth_def split: sum.splits prod.splits option.splits)

end
